theory Spec2Isabelle
  imports Complex_Main
begin

section \<open>Python values\<close>

text \<open>
  The colour handed to \<^verbatim>\<open>Circle\<close> and \<^verbatim>\<open>Rectangle\<close> is an arbitrary Python
  object: the code inspects it with \<^verbatim>\<open>isinstance\<close>, iterates over it and compares
  its elements.  The values that matter are modelled by a datatype.  A Python
  \<^verbatim>\<open>float\<close> (and \<^verbatim>\<open>numpy.float64\<close>, its subclass) is a finite number, an
  infinity or NaN; a finite float is represented by the real number it denotes,
  and the subtraction and the square root of floats by those of the reals (the
  rounding of the last bit is not modelled).
  \<^verbatim>\<open>numpy.bool_\<close>, the result type of \<^verbatim>\<open>np.all\<close>, is kept apart from the
  Python \<^verbatim>\<open>bool\<close>: the two are different objects for the \<^verbatim>\<open>is\<close> operator.
\<close>

datatype pyfloat = Finite real | PosInf | NegInf | NaN

datatype pyval =
    PyNone
  | PyBool bool
  | NpBool bool
  | PyInt int
  | PyFloat pyfloat
  | PyStr string
  | PyTuple "pyval list"
  | PyList "pyval list"

datatype error = TypeError | FileNotFoundError

text \<open>The comparison \<^verbatim>\<open>a <= b\<close> of two floats (IEEE: false when either is NaN).\<close>

fun float_le :: "pyfloat \<Rightarrow> pyfloat \<Rightarrow> bool" where
  "float_le NaN b = False"
| "float_le a NaN = False"
| "float_le NegInf b = True"
| "float_le a PosInf = True"
| "float_le (Finite a) (Finite b) = (a \<le> b)"
| "float_le a b = False"

text \<open>\<^verbatim>\<open>isinstance(x, float)\<close> and \<^verbatim>\<open>math.isnan(x)\<close>.\<close>

fun isinstance_float :: "pyval \<Rightarrow> bool" where
  "isinstance_float (PyFloat f) = True"
| "isinstance_float v = False"

fun isnan :: "pyval \<Rightarrow> bool" where
  "isnan (PyFloat NaN) = True"
| "isnan v = False"

text \<open>
  \<^verbatim>\<open>for x in color\<close>: a tuple and a list yield their elements, a string its
  characters (each a string of length one); \<^verbatim>\<open>None\<close>, numbers and booleans are
  not iterable and raise \<^verbatim>\<open>TypeError\<close>.
\<close>

fun py_iter :: "pyval \<Rightarrow> error + pyval list" where
  "py_iter (PyTuple xs) = Inr xs"
| "py_iter (PyList xs) = Inr xs"
| "py_iter (PyStr s) = Inr (map (\<lambda>c. PyStr [c]) s)"
| "py_iter v = Inl TypeError"

text \<open>
  Truthiness (\<^verbatim>\<open>not v\<close> is its negation) and identity with the singleton
  \<^verbatim>\<open>False\<close> (\<^verbatim>\<open>v is False\<close>).
\<close>

fun truthy :: "pyval \<Rightarrow> bool" where
  "truthy PyNone = False"
| "truthy (PyBool b) = b"
| "truthy (NpBool b) = b"
| "truthy (PyInt i) = (i \<noteq> 0)"
| "truthy (PyFloat f) = (f \<noteq> Finite 0)"
| "truthy (PyStr s) = (s \<noteq> [])"
| "truthy (PyTuple xs) = (xs \<noteq> [])"
| "truthy (PyList xs) = (xs \<noteq> [])"

fun is_False :: "pyval \<Rightarrow> bool" where
  "is_False (PyBool b) = (b = False)"
| "is_False v = False"

section \<open>Colours (circle.py)\<close>

text \<open>
  \<^verbatim>\<open>Circle.filter_nan\<close>: the loop returns \<^verbatim>\<open>None\<close> at the first element that
  is not a float or is NaN, and the tuple of the elements otherwise.  The length of
  the colour is not looked at.
\<close>

fun filter_nan_loop :: "pyval list \<Rightarrow> pyval list \<Rightarrow> pyval" where
  "filter_nan_loop [] filtered_color = PyTuple filtered_color"
| "filter_nan_loop (x # rest) filtered_color =
     (if isinstance_float x
      then (if isnan x then PyNone else filter_nan_loop rest (filtered_color @ [x]))
      else PyNone)"

definition filter_nan :: "pyval \<Rightarrow> error + pyval" where
  "filter_nan color =
     (case py_iter color of
        Inl e \<Rightarrow> Inl e
      | Inr xs \<Rightarrow> Inr (filter_nan_loop xs []))"

text \<open>
  \<^verbatim>\<open>Circle.is_valid_color\<close>.  The conjunction short-circuits: \<^verbatim>\<open>len\<close> and
  \<^verbatim>\<open>all\<close> run on tuples only and the comparisons on floats only, so no branch
  raises.
\<close>

fun channel_ok :: "pyval \<Rightarrow> bool" where
  "channel_ok (PyFloat c) = (float_le (Finite 0) c \<and> float_le c (Finite 255))"
| "channel_ok v = False"

fun is_valid_color :: "pyval \<Rightarrow> bool" where
  "is_valid_color (PyTuple cs) = (length cs = 3 \<and> list_all channel_ok cs)"
| "is_valid_color v = False"

text \<open>
  \<^verbatim>\<open>Circle.are_colors_similar\<close>: \<^verbatim>\<open>None\<close> unless both colours are valid, and
  otherwise the \<^verbatim>\<open>numpy.bool_\<close> that \<^verbatim>\<open>np.all\<close> returns.  The arrays are only
  built from valid colours, whose channels are finite floats; \<open>channel_value\<close>
  reads them.
\<close>

fun channel_value :: "pyval \<Rightarrow> real" where
  "channel_value (PyFloat (Finite r)) = r"
| "channel_value v = 0"

fun np_array :: "pyval \<Rightarrow> real list" where
  "np_array (PyTuple cs) = map channel_value cs"
| "np_array v = []"

definition color_diffs :: "pyval \<Rightarrow> pyval \<Rightarrow> real list" where
  "color_diffs color1 color2 = map2 (\<lambda>a b. \<bar>a - b\<bar>) (np_array color1) (np_array color2)"

definition are_colors_similar :: "pyval \<Rightarrow> pyval \<Rightarrow> int \<Rightarrow> pyval" where
  "are_colors_similar color1 color2 tolerance =
     (if is_valid_color color1 \<and> is_valid_color color2
      then NpBool (list_all (\<lambda>d. d \<le> real_of_int tolerance) (color_diffs color1 color2))
      else PyNone)"

text \<open>
  The validity predicate as the specification words it: exactly three channels,
  each a finite real number between 0 and 255, whether it is written as an integer
  or as a float.
\<close>

fun finite_real_in_range :: "pyval \<Rightarrow> bool" where
  "finite_real_in_range (PyInt i) = (0 \<le> i \<and> i \<le> 255)"
| "finite_real_in_range (PyFloat (Finite r)) = (0 \<le> r \<and> r \<le> 255)"
| "finite_real_in_range v = False"

fun colorValid_spec :: "pyval \<Rightarrow> bool" where
  "colorValid_spec (PyTuple cs) = (length cs = 3 \<and> list_all finite_real_in_range cs)"
| "colorValid_spec (PyList cs) = (length cs = 3 \<and> list_all finite_real_in_range cs)"
| "colorValid_spec v = False"

section \<open>Tracked entities (circle.py, rectangle.py)\<close>

text \<open>
  An entry of the trajectory list \<^verbatim>\<open>self.data\<close> is a dictionary; the entry made
  by the constructor has no \<^verbatim>\<open>"distance"\<close> key, the entries appended by a merge
  have one.
\<close>

record circle_point =
  p_x :: int
  p_y :: int
  p_frame :: int
  p_radius :: int
  p_distance :: "real option"
  p_color :: pyval

record circle =
  c_x :: int
  c_y :: int
  c_radius :: int
  c_color :: pyval
  c_frame :: int
  c_data :: "circle_point list"

record rectangle_point =
  q_x :: int
  q_y :: int
  q_width :: int
  q_height :: int
  q_frame :: int
  q_distance :: "real option"
  q_color :: pyval

record rectangle =
  r_x :: int
  r_y :: int
  r_width :: int
  r_height :: int
  r_color :: pyval
  r_frame :: int
  r_data :: "rectangle_point list"

text \<open>
  \<^verbatim>\<open>Circle.__init__\<close> and \<^verbatim>\<open>Rectangle.__init__\<close>.  The colour goes through
  \<open>filter_nan\<close>, whose exception leaves the constructor.
\<close>

definition circle_init :: "int \<Rightarrow> int \<Rightarrow> int \<Rightarrow> pyval \<Rightarrow> int \<Rightarrow> int \<Rightarrow> error + circle" where
  "circle_init x y radius color frame video_height =
     (case filter_nan color of
        Inl e \<Rightarrow> Inl e
      | Inr filtered \<Rightarrow>
          Inr \<lparr>c_x = x, c_y = y, c_radius = radius, c_color = filtered, c_frame = frame,
               c_data = [\<lparr>p_x = x, p_y = video_height - y, p_frame = frame, p_radius = radius,
                          p_distance = None, p_color = filtered\<rparr>]\<rparr>)"

definition rectangle_init ::
  "int \<Rightarrow> int \<Rightarrow> int \<Rightarrow> int \<Rightarrow> pyval \<Rightarrow> int \<Rightarrow> int \<Rightarrow> error + rectangle" where
  "rectangle_init x y width height color frame video_height =
     (case filter_nan color of
        Inl e \<Rightarrow> Inl e
      | Inr filtered \<Rightarrow>
          Inr \<lparr>r_x = x, r_y = y, r_width = width, r_height = height, r_color = filtered,
               r_frame = frame,
               r_data = [\<lparr>q_x = x, q_y = video_height - y, q_width = width, q_height = height,
                          q_frame = frame, q_distance = None, q_color = filtered\<rparr>]\<rparr>)"

text \<open>
  \<^verbatim>\<open>Circle.are_circles_same\<close> and \<^verbatim>\<open>Rectangle.are_rectangles_same\<close> return the
  distance between the centres, or \<^verbatim>\<open>False\<close> (here \<open>None\<close>).  The rectangle's
  centre uses Python's floor division.  The coordinates are pixel positions, whose
  squares \<^verbatim>\<open>np.sqrt\<close> accepts; against an integer threshold the rounded square
  root compares as the exact one does.
\<close>

definition are_circles_same :: "circle \<Rightarrow> circle \<Rightarrow> int \<Rightarrow> int \<Rightarrow> real option" where
  "are_circles_same self circle distance_threshold radius_threshold =
     (let distance = sqrt (real_of_int ((c_x circle - c_x self)\<^sup>2 + (c_y circle - c_y self)\<^sup>2));
          radius_diff = \<bar>c_radius circle - c_radius self\<bar>
      in if distance \<le> real_of_int distance_threshold \<and> radius_diff \<le> radius_threshold
         then Some distance else None)"

definition are_rectangles_same :: "rectangle \<Rightarrow> rectangle \<Rightarrow> int \<Rightarrow> int \<Rightarrow> real option" where
  "are_rectangles_same self rect distance_threshold size_diff_threshold =
     (let x1 = r_x self; y1 = r_y self; w1 = r_width self; h1 = r_height self;
          x2 = r_x rect; y2 = r_y rect; w2 = r_width rect; h2 = r_height rect;
          center1 = (x1 + w1 div 2, y1 + h1 div 2);
          center2 = (x2 + w2 div 2, y2 + h2 div 2);
          distance = sqrt (real_of_int ((fst center2 - fst center1)\<^sup>2
                                        + (snd center2 - snd center1)\<^sup>2));
          size_diff = max \<bar>w1 - w2\<bar> \<bar>h1 - h2\<bar>
      in if distance \<le> real_of_int distance_threshold \<and> size_diff \<le> size_diff_threshold
         then Some distance else None)"

text \<open>
  \<^verbatim>\<open>Circle.same_circle\<close>.  The method mutates \<^verbatim>\<open>self\<close>; the model returns the
  result together with the entity afterwards.  The colour test is written
  \<^verbatim>\<open>are_colors_similar(...) is False\<close>: it compares the identity of the result
  with the singleton \<^verbatim>\<open>False\<close>, where \<open>same_rectangle\<close> below takes the
  truth value of the result.
\<close>

definition same_circle :: "circle \<Rightarrow> circle \<Rightarrow> int \<Rightarrow> bool \<times> circle" where
  "same_circle self circle video_height =
     (if c_frame circle \<le> c_frame self then (False, self)
      else if c_frame circle - c_frame self > 20 then (False, self)
      else case are_circles_same self circle 50 17 of
        None \<Rightarrow> (False, self)
      | Some distance \<Rightarrow>
          if is_False (are_colors_similar (c_color self) (c_color circle) 30) then (False, self)
          else (True,
                self\<lparr>c_x := c_x circle, c_y := c_y circle, c_frame := c_frame circle,
                     c_data := c_data self @
                       [\<lparr>p_x = c_x circle, p_y = video_height - c_y circle,
                         p_frame = c_frame circle, p_radius = c_radius circle,
                         p_distance = Some distance, p_color = c_color circle\<rparr>]\<rparr>))"

text \<open>
  \<^verbatim>\<open>Rectangle.same_rectangle\<close>.  The colour test is written
  \<^verbatim>\<open>not are_colors_similar(...)\<close>.  The tuple assignment gives \<^verbatim>\<open>self.height\<close>
  the observation's width and \<^verbatim>\<open>self.width\<close> its height, and the appended
  entry carries \<^verbatim>\<open>self.color\<close>.
\<close>

definition same_rectangle :: "rectangle \<Rightarrow> rectangle \<Rightarrow> int \<Rightarrow> bool \<times> rectangle" where
  "same_rectangle self rectangle video_height =
     (if r_frame rectangle \<le> r_frame self then (False, self)
      else if r_frame rectangle - r_frame self > 20 then (False, self)
      else case are_rectangles_same self rectangle 40 5 of
        None \<Rightarrow> (False, self)
      | Some distance \<Rightarrow>
          if truthy (are_colors_similar (r_color self) (r_color rectangle) 30)
          then (True,
                self\<lparr>r_x := r_x rectangle, r_y := r_y rectangle,
                     r_height := r_width rectangle, r_width := r_height rectangle,
                     r_frame := r_frame rectangle,
                     r_data := r_data self @
                       [\<lparr>q_x = r_x rectangle, q_y = video_height - r_y rectangle,
                         q_width = r_width rectangle, q_height = r_height rectangle,
                         q_frame = r_frame rectangle, q_distance = Some distance,
                         q_color = r_color self\<rparr>]\<rparr>)
          else (False, self))"

section \<open>Persistence (save_circle, save_rectangle)\<close>

text \<open>
  \<^verbatim>\<open>save_circle\<close> and \<^verbatim>\<open>save_rectangle\<close> build a dictionary and hand it to
  \<^verbatim>\<open>json.dump\<close> for the file \<^verbatim>\<open>data/<filename>\<close>; a failing write is caught and
  logged.  The model returns the file name and the dictionary, as the list of its
  keys and values in the order the source writes them.
\<close>

datatype jvalue =
    JString string
  | JInt int
  | JColor pyval
  | JCircleData "circle_point list"
  | JRectangleData "rectangle_point list"

record saved_file =
  filename :: string
  content :: "(string \<times> jvalue) list"

text \<open>The decimal numeral that an f-string prints for an integer.\<close>

function str_of_nat :: "nat \<Rightarrow> string" where
  "str_of_nat n =
     (if n < 10 then [''0123456789'' ! n]
      else str_of_nat (n div 10) @ [''0123456789'' ! (n mod 10)])"
  by pat_completeness auto
termination
  by (relation "measure (\<lambda>n. n)") auto

declare str_of_nat.simps [simp del]

definition str_of_int :: "int \<Rightarrow> string" where
  "str_of_int i = (if i < 0 then ''-'' @ str_of_nat (nat (- i)) else str_of_nat (nat i))"

definition save_circle :: "circle \<Rightarrow> int \<Rightarrow> saved_file" where
  "save_circle self name =
     (let fname = ''circle_data_'' @ str_of_int name @ ''.json''
      in \<lparr>filename = fname,
          content = [(''filename'', JString fname),
                     (''radius'', JInt (c_radius self)),
                     (''color'', JColor (c_color self)),
                     (''data'', JCircleData (c_data self))]\<rparr>)"

definition save_rectangle :: "rectangle \<Rightarrow> int \<Rightarrow> saved_file" where
  "save_rectangle self name =
     (let fname = ''rectangle_data_'' @ str_of_int name @ ''.json''
      in \<lparr>filename = fname,
          content = [(''width'', JInt (r_width self)),
                     (''height'', JInt (r_height self)),
                     (''color'', JColor (r_color self)),
                     (''data'', JRectangleData (r_data self))]\<rparr>)"

section \<open>The tracker (tracker.py)\<close>

record tracker =
  t_circles :: "circle list"
  t_rectangles :: "rectangle list"
  t_video_height :: int
  t_video_width :: int

text \<open>\<^verbatim>\<open>Tracker.__init__\<close>.\<close>

definition tracker_init :: tracker where
  "tracker_init = \<lparr>t_circles = [], t_rectangles = [], t_video_height = 0, t_video_width = 0\<rparr>"

text \<open>
  What the OpenCV calls of one frame deliver.  A circle candidate is a Hough circle
  that passed the bounds test and has a non-empty region, with the mean colour of
  the region as the list that \<^verbatim>\<open>tuple(...)\<close> is applied to.  A square candidate
  is an element of the local list \<^verbatim>\<open>rectangles\<close> of \<^verbatim>\<open>process_rectangles\<close>
  (a bounding box with \<^verbatim>\<open>w == h\<close>) with its colour list, and the outcome of the
  object identity test \<^verbatim>\<open>w is h\<close>, which the values of \<^verbatim>\<open>w\<close> and \<^verbatim>\<open>h\<close> do not
  determine.
\<close>

record circle_candidate =
  cc_x :: int
  cc_y :: int
  cc_r :: int
  cc_average_color :: "pyval list"

record square_candidate =
  sc_x :: int
  sc_y :: int
  sc_w :: int
  sc_h :: int
  sc_color :: "pyval list"
  sc_w_is_h :: bool

record detections =
  circle_candidates :: "circle_candidate list"
  square_candidates :: "square_candidate list"

text \<open>
  \<^verbatim>\<open>any(circle.same_circle(new_circle, ...) for circle in self.circles)\<close>: the
  generator stops at the first entity that returns \<^verbatim>\<open>True\<close>.  The result is the
  value of \<^verbatim>\<open>any\<close> and the list of entities afterwards.
\<close>

fun scan_circles :: "circle list \<Rightarrow> circle \<Rightarrow> int \<Rightarrow> bool \<times> circle list" where
  "scan_circles [] new_circle video_height = (False, [])"
| "scan_circles (circle # rest) new_circle video_height =
     (let (same, circle') = same_circle circle new_circle video_height
      in if same then (True, circle' # rest)
         else (let (found, rest') = scan_circles rest new_circle video_height
               in (found, circle' # rest')))"

text \<open>Lines 144 to 148 of \<^verbatim>\<open>process_circles\<close>: append the new circle if no entity took it.\<close>

definition ingest_circle :: "circle list \<Rightarrow> circle \<Rightarrow> int \<Rightarrow> circle list" where
  "ingest_circle circles new_circle video_height =
     (let (found, circles') = scan_circles circles new_circle video_height
      in if found then circles' else circles' @ [new_circle])"

fun process_circles :: "tracker \<Rightarrow> circle_candidate list \<Rightarrow> int \<Rightarrow> error + tracker" where
  "process_circles self [] frame_counter = Inr self"
| "process_circles self (cand # rest) frame_counter =
     (case circle_init (cc_x cand) (cc_y cand) (cc_r cand) (PyTuple (cc_average_color cand))
             frame_counter (t_video_height self) of
        Inl e \<Rightarrow> Inl e
      | Inr new_circle \<Rightarrow>
          process_circles
            (self\<lparr>t_circles := ingest_circle (t_circles self) new_circle (t_video_height self)\<rparr>)
            rest frame_counter)"

text \<open>
  The loop with \<^verbatim>\<open>break\<close> of \<^verbatim>\<open>process_rectangles\<close> (lines 194 to 198); the
  result is the negation of \<^verbatim>\<open>is_new_rectangle\<close> and the entities afterwards.
\<close>

fun scan_rectangles :: "rectangle list \<Rightarrow> rectangle \<Rightarrow> int \<Rightarrow> bool \<times> rectangle list" where
  "scan_rectangles [] new_rectangle video_height = (False, [])"
| "scan_rectangles (rectangle # rest) new_rectangle video_height =
     (let (same, rectangle') = same_rectangle rectangle new_rectangle video_height
      in if same then (True, rectangle' # rest)
         else (let (found, rest') = scan_rectangles rest new_rectangle video_height
               in (found, rectangle' # rest')))"

definition ingest_rectangle :: "rectangle list \<Rightarrow> rectangle \<Rightarrow> int \<Rightarrow> rectangle list" where
  "ingest_rectangle rectangles new_rectangle video_height =
     (let (found, rectangles') = scan_rectangles rectangles new_rectangle video_height
      in if found then rectangles' else rectangles' @ [new_rectangle])"

fun process_rectangles :: "tracker \<Rightarrow> square_candidate list \<Rightarrow> int \<Rightarrow> error + tracker" where
  "process_rectangles self [] frame_counter = Inr self"
| "process_rectangles self (cand # rest) frame_counter =
     (case rectangle_init (sc_x cand) (sc_y cand) (sc_w cand) (sc_h cand)
             (PyTuple (sc_color cand)) frame_counter (t_video_height self) of
        Inl e \<Rightarrow> Inl e
      | Inr new_rectangle \<Rightarrow>
          if sc_w_is_h cand
          then process_rectangles
                 (self\<lparr>t_rectangles :=
                    ingest_rectangle (t_rectangles self) new_rectangle (t_video_height self)\<rparr>)
                 rest frame_counter
          else process_rectangles self rest frame_counter)"

text \<open>
  The video source.  \<open>v_opened\<close> is \<^verbatim>\<open>video.isOpened()\<close> in \<^verbatim>\<open>load_video\<close>.
  \<open>v_ticks i\<close> is what the source answers in the iteration of the loop of
  \<^verbatim>\<open>track\<close> that starts with \<^verbatim>\<open>frame_counter == i\<close>: the value of
  \<^verbatim>\<open>video.isOpened()\<close>, the outcome of \<^verbatim>\<open>video.read()\<close> and whether the key
  \<^verbatim>\<open>q\<close> is pressed.  The source may have a frame for every iteration.
\<close>

datatype read_result = ReadValueError | NoFrame | Frame detections

record tick =
  is_opened :: bool
  read :: read_result
  quit_key :: bool

record video =
  v_opened :: bool
  v_width :: int
  v_height :: int
  v_ticks :: "nat \<Rightarrow> tick"

text \<open>
  The \<^verbatim>\<open>while\<close> loop of \<^verbatim>\<open>track\<close>; it returns the final frame counter and the
  tracker.
\<close>

function track_loop :: "(nat \<Rightarrow> tick) \<Rightarrow> nat \<Rightarrow> tracker \<Rightarrow> error + nat \<times> tracker" where
  "track_loop ticks frame_counter self =
     (if is_opened (ticks frame_counter) \<and> frame_counter < 1000 then
        (case read (ticks frame_counter) of
           ReadValueError \<Rightarrow> Inr (frame_counter + 1, self)
         | NoFrame \<Rightarrow> Inr (frame_counter + 1, self)
         | Frame frame \<Rightarrow>
             (case process_circles self (circle_candidates frame) (int (frame_counter + 1)) of
                Inl e \<Rightarrow> Inl e
              | Inr self1 \<Rightarrow>
                  (case process_rectangles self1 (square_candidates frame)
                          (int (frame_counter + 1)) of
                     Inl e \<Rightarrow> Inl e
                   | Inr self2 \<Rightarrow>
                       if quit_key (ticks frame_counter) then Inr (frame_counter + 1, self2)
                       else track_loop ticks (frame_counter + 1) self2)))
      else Inr (frame_counter, self))"
  by pat_completeness auto
termination
  by (relation "measure (\<lambda>(ticks, frame_counter, self). 1000 - frame_counter)") auto

declare track_loop.simps [simp del]

text \<open>The two loops that save the entities, numbering them from 1.\<close>

fun save_circles :: "circle list \<Rightarrow> int \<Rightarrow> saved_file list" where
  "save_circles [] x = []"
| "save_circles (circle # rest) x = save_circle circle (x + 1) # save_circles rest (x + 1)"

fun save_rectangles :: "rectangle list \<Rightarrow> int \<Rightarrow> saved_file list" where
  "save_rectangles [] x = []"
| "save_rectangles (rectangle # rest) x =
     save_rectangle rectangle (x + 1) # save_rectangles rest (x + 1)"

text \<open>
  \<^verbatim>\<open>load_video\<close> raises \<^verbatim>\<open>FileNotFoundError\<close> when the video cannot be opened and
  stores the frame size otherwise.  \<^verbatim>\<open>track\<close> returns the files it writes.
  \<^verbatim>\<open>delete_dir\<close>, which empties the output directory beforehand, and the calls
  that draw and display the frame are left out.
\<close>

definition load_video :: "tracker \<Rightarrow> video \<Rightarrow> error + tracker" where
  "load_video self video =
     (if v_opened video
      then Inr (self\<lparr>t_video_width := v_width video, t_video_height := v_height video\<rparr>)
      else Inl FileNotFoundError)"

definition track :: "tracker \<Rightarrow> video \<Rightarrow> error + saved_file list" where
  "track self video =
     (case load_video self video of
        Inl e \<Rightarrow> Inl e
      | Inr self0 \<Rightarrow>
          (case track_loop (v_ticks video) 0 self0 of
             Inl e \<Rightarrow> Inl e
           | Inr (frame_counter, self1) \<Rightarrow>
               Inr (save_circles (t_circles self1) 0 @ save_rectangles (t_rectangles self1) 0)))"

section \<open>Objects of the test suite\<close>

text \<open>
  The colours and entities that \<^verbatim>\<open>tests/circle_test.py\<close> and
  \<^verbatim>\<open>tests/rectangle_test.py\<close> build (video height 1080), as the constructors
  leave them.  \<open>circle2_nan\<close> and \<open>rect2_nan\<close> are the second circle and
  rectangle built with the colour \<^verbatim>\<open>(255.0, nan, 0.0)\<close> of \<^verbatim>\<open>test_filter_nan\<close>,
  which \<open>filter_nan\<close> turns into \<^verbatim>\<open>None\<close>.
\<close>

definition red :: pyval where
  "red = PyTuple [PyFloat (Finite 255), PyFloat (Finite 0), PyFloat (Finite 0)]"

definition green :: pyval where
  "green = PyTuple [PyFloat (Finite 0), PyFloat (Finite 255), PyFloat (Finite 0)]"

definition circle1 :: circle where
  "circle1 = \<lparr>c_x = 100, c_y = 200, c_radius = 50, c_color = red, c_frame = 1,
     c_data = [\<lparr>p_x = 100, p_y = 880, p_frame = 1, p_radius = 50, p_distance = None,
                p_color = red\<rparr>]\<rparr>"

definition circle2 :: circle where
  "circle2 = \<lparr>c_x = 105, c_y = 205, c_radius = 50, c_color = red, c_frame = 2,
     c_data = [\<lparr>p_x = 105, p_y = 875, p_frame = 2, p_radius = 50, p_distance = None,
                p_color = red\<rparr>]\<rparr>"

definition circle3 :: circle where
  "circle3 = \<lparr>c_x = 110, c_y = 210, c_radius = 50, c_color = red, c_frame = 3,
     c_data = [\<lparr>p_x = 110, p_y = 870, p_frame = 3, p_radius = 50, p_distance = None,
                p_color = red\<rparr>]\<rparr>"

definition rect1 :: rectangle where
  "rect1 = \<lparr>r_x = 10, r_y = 20, r_width = 100, r_height = 100, r_color = red, r_frame = 1,
     r_data = [\<lparr>q_x = 10, q_y = 1060, q_width = 100, q_height = 100, q_frame = 1,
                q_distance = None, q_color = red\<rparr>]\<rparr>"

definition rect2 :: rectangle where
  "rect2 = \<lparr>r_x = 15, r_y = 25, r_width = 100, r_height = 100, r_color = red, r_frame = 2,
     r_data = [\<lparr>q_x = 15, q_y = 1055, q_width = 100, q_height = 100, q_frame = 2,
                q_distance = None, q_color = red\<rparr>]\<rparr>"

definition circle2_nan :: circle where
  "circle2_nan = \<lparr>c_x = 105, c_y = 205, c_radius = 50, c_color = PyNone, c_frame = 2,
     c_data = [\<lparr>p_x = 105, p_y = 875, p_frame = 2, p_radius = 50, p_distance = None,
                p_color = PyNone\<rparr>]\<rparr>"

definition rect2_nan :: rectangle where
  "rect2_nan = \<lparr>r_x = 15, r_y = 25, r_width = 100, r_height = 100, r_color = PyNone,
     r_frame = 2,
     r_data = [\<lparr>q_x = 15, q_y = 1055, q_width = 100, q_height = 100, q_frame = 2,
                q_distance = None, q_color = PyNone\<rparr>]\<rparr>"

text \<open>
  A video source that never runs out: it stays open, every read delivers a frame
  with one red circle, and the key \<^verbatim>\<open>q\<close> is never pressed.
\<close>

definition endless_video :: video where
  "endless_video =
     \<lparr>v_opened = True, v_width = 1920, v_height = 1080,
      v_ticks = (\<lambda>i. \<lparr>is_opened = True,
                      read = Frame \<lparr>circle_candidates =
                                      [\<lparr>cc_x = 100, cc_y = 200, cc_r = 50,
                                        cc_average_color =
                                          [PyFloat (Finite 255), PyFloat (Finite 0),
                                           PyFloat (Finite 0)]\<rparr>],
                                    square_candidates = []\<rparr>,
                      quit_key = False\<rparr>)\<rparr>"

text \<open>
  A video of two frames: the first shows the circle of \<open>circle1\<close>, the second
  the circle of \<open>circle2\<close> and the square of \<open>rect1\<close>; the third read fails.
\<close>

definition two_frame_video :: video where
  "two_frame_video =
     \<lparr>v_opened = True, v_width = 1920, v_height = 1080,
      v_ticks = (\<lambda>i.
        if i = 0 then
          \<lparr>is_opened = True,
           read = Frame \<lparr>circle_candidates =
                           [\<lparr>cc_x = 100, cc_y = 200, cc_r = 50,
                             cc_average_color =
                               [PyFloat (Finite 255), PyFloat (Finite 0), PyFloat (Finite 0)]\<rparr>],
                         square_candidates = []\<rparr>,
           quit_key = False\<rparr>
        else if i = 1 then
          \<lparr>is_opened = True,
           read = Frame \<lparr>circle_candidates =
                           [\<lparr>cc_x = 105, cc_y = 205, cc_r = 50,
                             cc_average_color =
                               [PyFloat (Finite 255), PyFloat (Finite 0), PyFloat (Finite 0)]\<rparr>],
                         square_candidates =
                           [\<lparr>sc_x = 10, sc_y = 20, sc_w = 100, sc_h = 100,
                             sc_color =
                               [PyFloat (Finite 255), PyFloat (Finite 0), PyFloat (Finite 0)],
                             sc_w_is_h = True\<rparr>]\<rparr>,
           quit_key = False\<rparr>
        else \<lparr>is_opened = True, read = NoFrame, quit_key = False\<rparr>)\<rparr>"

section \<open>Properties of the colour functions\<close>

lemma channel_ok_iff:
  "channel_ok v \<longleftrightarrow> (\<exists>r. v = PyFloat (Finite r) \<and> 0 \<le> r \<and> r \<le> 255)"
proof (cases v)
  case (PyFloat f)
  then show ?thesis by (cases f) simp_all
qed simp_all

lemma length_three: "length cs = 3 \<longleftrightarrow> (\<exists>a b c. cs = [a, b, c])"
  by (auto simp: length_Suc_conv numeral_3_eq_3)

lemma map2_abs_diff_commute:
  "map2 (\<lambda>a b. \<bar>a - b\<bar>) xs ys = map2 (\<lambda>a b. \<bar>a - b\<bar>) ys (xs :: real list)"
proof (induction xs arbitrary: ys)
  case Nil
  then show ?case by simp
next
  case (Cons x xs)
  then show ?case by (cases ys) (simp_all add: abs_minus_commute)
qed

lemma color_diffs_commute: "color_diffs c1 c2 = color_diffs c2 c1"
  unfolding color_diffs_def by (rule map2_abs_diff_commute)

text \<open>
  Claim C7, as amended.  \<open>is_valid_color\<close> holds exactly for a tuple of three
  Python floats, each finite and between 0 and 255.  Integer channels, lists and
  every other object are invalid.
\<close>

theorem is_valid_color_iff:
  "is_valid_color color \<longleftrightarrow>
     (\<exists>r g b. color = PyTuple [PyFloat (Finite r), PyFloat (Finite g), PyFloat (Finite b)]
        \<and> 0 \<le> r \<and> r \<le> 255 \<and> 0 \<le> g \<and> g \<le> 255 \<and> 0 \<le> b \<and> b \<le> 255)"
proof (cases color)
  case (PyTuple cs)
  show ?thesis
  proof
    assume "is_valid_color color"
    with PyTuple have len: "length cs = 3" and ok: "list_all channel_ok cs" by simp_all
    from len obtain x y z where cs: "cs = [x, y, z]" by (auto simp: length_three)
    with ok have "channel_ok x" "channel_ok y" "channel_ok z" by simp_all
    then obtain r g b where "x = PyFloat (Finite r)" "0 \<le> r" "r \<le> 255"
      "y = PyFloat (Finite g)" "0 \<le> g" "g \<le> 255"
      "z = PyFloat (Finite b)" "0 \<le> b" "b \<le> 255"
      unfolding channel_ok_iff by blast
    with PyTuple cs show "\<exists>r g b. color = PyTuple [PyFloat (Finite r), PyFloat (Finite g), PyFloat (Finite b)]
        \<and> 0 \<le> r \<and> r \<le> 255 \<and> 0 \<le> g \<and> g \<le> 255 \<and> 0 \<le> b \<and> b \<le> 255"
      by blast
  next
    assume "\<exists>r g b. color = PyTuple [PyFloat (Finite r), PyFloat (Finite g), PyFloat (Finite b)]
        \<and> 0 \<le> r \<and> r \<le> 255 \<and> 0 \<le> g \<and> g \<le> 255 \<and> 0 \<le> b \<and> b \<le> 255"
    then show "is_valid_color color" by auto
  qed
qed simp_all

text \<open>
  Claim C7, as the specification states it, fails: the colour \<^verbatim>\<open>(255, 0, 0)\<close>
  has three channels that are real numbers in range, written as integers, and
  \<open>is_valid_color\<close> rejects it because of its \<^verbatim>\<open>isinstance(c, float)\<close> guard.
\<close>

theorem is_valid_color_int_channels_counterexample:
  "colorValid_spec (PyTuple [PyInt 255, PyInt 0, PyInt 0])
   \<and> \<not> is_valid_color (PyTuple [PyInt 255, PyInt 0, PyInt 0])"
  by simp

text \<open>
  Claim C9.  \<open>are_colors_similar\<close> is symmetric in its two colours for every
  tolerance, whatever the result: \<^verbatim>\<open>None\<close> (a colour is invalid),
  \<^verbatim>\<open>True\<close> or \<^verbatim>\<open>False\<close>.
\<close>

theorem are_colors_similar_symmetric:
  "are_colors_similar c1 c2 tolerance = are_colors_similar c2 c1 tolerance"
  unfolding are_colors_similar_def
  by (simp add: color_diffs_commute conj_commute)

section \<open>Properties of the merge\<close>

lemma sqrt_int_le_iff:
  assumes "0 \<le> t"
  shows "sqrt (real_of_int n) \<le> real_of_int t \<longleftrightarrow> n \<le> t\<^sup>2"
proof -
  have "real_of_int t = sqrt ((real_of_int t)\<^sup>2)" using assms by simp
  then have "sqrt (real_of_int n) \<le> real_of_int t
             \<longleftrightarrow> sqrt (real_of_int n) \<le> sqrt ((real_of_int t)\<^sup>2)" by simp
  also have "\<dots> \<longleftrightarrow> real_of_int n \<le> (real_of_int t)\<^sup>2" by (rule real_sqrt_le_iff)
  also have "\<dots> \<longleftrightarrow> real_of_int n \<le> real_of_int (t\<^sup>2)" by simp
  also have "\<dots> \<longleftrightarrow> n \<le> t\<^sup>2" by (rule of_int_le_iff)
  finally show ?thesis .
qed

lemma are_circles_same_50_17:
  "are_circles_same self circle 50 17 =
     (if (c_x circle - c_x self)\<^sup>2 + (c_y circle - c_y self)\<^sup>2 \<le> 2500
         \<and> \<bar>c_radius circle - c_radius self\<bar> \<le> 17
      then Some (sqrt (real_of_int ((c_x circle - c_x self)\<^sup>2 + (c_y circle - c_y self)\<^sup>2)))
      else None)"
  using sqrt_int_le_iff [of 50 "(c_x circle - c_x self)\<^sup>2 + (c_y circle - c_y self)\<^sup>2"]
  by (simp add: are_circles_same_def Let_def)

lemma are_rectangles_same_40_5:
  "are_rectangles_same self rect 40 5 =
     (if (r_x rect + r_width rect div 2 - (r_x self + r_width self div 2))\<^sup>2
         + (r_y rect + r_height rect div 2 - (r_y self + r_height self div 2))\<^sup>2 \<le> 1600
         \<and> max \<bar>r_width self - r_width rect\<bar> \<bar>r_height self - r_height rect\<bar> \<le> 5
      then Some (sqrt (real_of_int
             ((r_x rect + r_width rect div 2 - (r_x self + r_width self div 2))\<^sup>2
              + (r_y rect + r_height rect div 2 - (r_y self + r_height self div 2))\<^sup>2)))
      else None)"
  using sqrt_int_le_iff [of 40
      "(r_x rect + r_width rect div 2 - (r_x self + r_width self div 2))\<^sup>2
       + (r_y rect + r_height rect div 2 - (r_y self + r_height self div 2))\<^sup>2"]
  by (simp add: are_rectangles_same_def Let_def)

lemma is_False_are_colors_similar [simp]: "\<not> is_False (are_colors_similar c1 c2 tol)"
  by (simp add: are_colors_similar_def)

text \<open>
  Claim C3.  An observation whose frame is not after the entity's current frame is
  refused, and the entity is returned as it was: position, size, colour, frame and
  trajectory.
\<close>

theorem merge_rejects_non_advancing_frame:
  "(c_frame circle \<le> c_frame cself \<longrightarrow> same_circle cself circle video_height = (False, cself))
   \<and> (r_frame rectangle \<le> r_frame rself
        \<longrightarrow> same_rectangle rself rectangle video_height = (False, rself))"
  by (simp add: same_circle_def same_rectangle_def)

theorem merge_rejects_non_advancing_frame_witness:
  "c_frame circle2 \<le> c_frame circle3
   \<and> same_circle circle3 circle2 1080 = (False, circle3)
   \<and> r_frame rect1 \<le> r_frame rect2
   \<and> same_rectangle rect2 rect1 1080 = (False, rect2)"
  using merge_rejects_non_advancing_frame
    [where circle = circle2 and cself = circle3 and rectangle = rect1 and rself = rect2
       and video_height = 1080]
  by (simp add: circle2_def circle3_def rect1_def rect2_def)

lemma fixtures_constructed:
  "circle_init 100 200 50 red 1 1080 = Inr circle1"
  "circle_init 105 205 50 red 2 1080 = Inr circle2"
  "circle_init 110 210 50 red 3 1080 = Inr circle3"
  "rectangle_init 10 20 100 100 red 1 1080 = Inr rect1"
  "rectangle_init 15 25 100 100 red 2 1080 = Inr rect2"
  by (simp_all add: circle_init_def rectangle_init_def filter_nan_def red_def
      circle1_def circle2_def circle3_def rect1_def rect2_def)

lemma red_similar [simp]: "are_colors_similar red red 30 = NpBool True"
  by (simp add: are_colors_similar_def color_diffs_def red_def)

text \<open>
  Claim C4.  With the geometry within the thresholds and the colours similar, a
  frame gap of exactly 21 is refused and a gap of exactly 20 is accepted, for
  circles and for rectangles.
\<close>

theorem merge_frame_gap_boundary:
  "(c_frame circle - c_frame cself = 21
      \<longrightarrow> same_circle cself circle video_height = (False, cself))
   \<and> (c_frame circle - c_frame cself = 20
        \<and> are_circles_same cself circle 50 17 \<noteq> None
        \<and> are_colors_similar (c_color cself) (c_color circle) 30 = NpBool True
      \<longrightarrow> fst (same_circle cself circle video_height))
   \<and> (r_frame rectangle - r_frame rself = 21
      \<longrightarrow> same_rectangle rself rectangle video_height = (False, rself))
   \<and> (r_frame rectangle - r_frame rself = 20
        \<and> are_rectangles_same rself rectangle 40 5 \<noteq> None
        \<and> are_colors_similar (r_color rself) (r_color rectangle) 30 = NpBool True
      \<longrightarrow> fst (same_rectangle rself rectangle video_height))"
  by (auto simp: same_circle_def same_rectangle_def)

theorem merge_frame_gap_boundary_witness:
  "c_frame (circle2\<lparr>c_frame := 22\<rparr>) - c_frame circle1 = 21
   \<and> same_circle circle1 (circle2\<lparr>c_frame := 22\<rparr>) 1080 = (False, circle1)
   \<and> r_frame (rect2\<lparr>r_frame := 22\<rparr>) - r_frame rect1 = 21
   \<and> same_rectangle rect1 (rect2\<lparr>r_frame := 22\<rparr>) 1080 = (False, rect1)
   \<and> c_frame (circle2\<lparr>c_frame := 21\<rparr>) - c_frame circle1 = 20
   \<and> are_circles_same circle1 (circle2\<lparr>c_frame := 21\<rparr>) 50 17 \<noteq> None
   \<and> are_colors_similar (c_color circle1) (c_color (circle2\<lparr>c_frame := 21\<rparr>)) 30 = NpBool True
   \<and> fst (same_circle circle1 (circle2\<lparr>c_frame := 21\<rparr>) 1080)
   \<and> r_frame (rect2\<lparr>r_frame := 21\<rparr>) - r_frame rect1 = 20
   \<and> are_rectangles_same rect1 (rect2\<lparr>r_frame := 21\<rparr>) 40 5 \<noteq> None
   \<and> are_colors_similar (r_color rect1) (r_color (rect2\<lparr>r_frame := 21\<rparr>)) 30 = NpBool True
   \<and> fst (same_rectangle rect1 (rect2\<lparr>r_frame := 21\<rparr>) 1080)"
  using merge_frame_gap_boundary
    [where circle = "circle2\<lparr>c_frame := 22\<rparr>" and cself = circle1
       and rectangle = "rect2\<lparr>r_frame := 22\<rparr>" and rself = rect1 and video_height = 1080]
    merge_frame_gap_boundary
    [where circle = "circle2\<lparr>c_frame := 21\<rparr>" and cself = circle1
       and rectangle = "rect2\<lparr>r_frame := 21\<rparr>" and rself = rect1 and video_height = 1080]
  by (simp add: circle1_def circle2_def rect1_def rect2_def
      are_circles_same_50_17 are_rectangles_same_40_5)




text \<open>
  Claim C1 at a concrete input.  The observation \<open>circle2_nan\<close> has no colour
  (its NaN channel made \<open>filter_nan\<close> return \<^verbatim>\<open>None\<close>), the colour
  comparison with the entity \<open>circle1\<close> is \<^verbatim>\<open>None\<close>, and \<open>same_circle\<close>
  still merges it: \<^verbatim>\<open>None is False\<close> does not hold.  An observation whose colour
  is valid and not similar (\<open>green\<close>) is merged as well, since \<^verbatim>\<open>np.all\<close> returns
  a \<^verbatim>\<open>numpy.bool_\<close>, which is not the object \<^verbatim>\<open>False\<close> either.
\<close>

theorem same_circle_merges_undetermined_color:
  "circle_init 105 205 50 (PyTuple [PyFloat (Finite 255), PyFloat NaN, PyFloat (Finite 0)]) 2 1080
     = Inr circle2_nan
   \<and> are_colors_similar (c_color circle1) (c_color circle2_nan) 30 = PyNone
   \<and> same_circle circle1 circle2_nan 1080 =
       (True,
        circle1\<lparr>c_x := 105, c_y := 205, c_frame := 2,
          c_data := c_data circle1 @
            [\<lparr>p_x = 105, p_y = 875, p_frame = 2, p_radius = 50, p_distance = Some (sqrt 50),
              p_color = PyNone\<rparr>]\<rparr>)
   \<and> are_colors_similar (c_color circle1) (c_color (circle2\<lparr>c_color := green\<rparr>)) 30
       = NpBool False
   \<and> fst (same_circle circle1 (circle2\<lparr>c_color := green\<rparr>) 1080)"
  by (simp add: circle_init_def filter_nan_def circle2_nan_def circle1_def circle2_def
      same_circle_def are_circles_same_50_17 are_colors_similar_def color_diffs_def
      red_def green_def)

lemma same_rectangle_rejects_dissimilar_color:
  "\<not> truthy (are_colors_similar (r_color rself) (r_color rectangle) 30)
   \<Longrightarrow> same_rectangle rself rectangle video_height = (False, rself)"
  by (simp add: same_rectangle_def split: option.splits)

lemma same_circle_decided_without_color:
  "fst (same_circle cself circle video_height) \<longleftrightarrow>
     c_frame cself < c_frame circle \<and> c_frame circle - c_frame cself \<le> 20
     \<and> are_circles_same cself circle 50 17 \<noteq> None"
  by (auto simp: same_circle_def split: option.splits)

section \<open>The assertions of the test suite\<close>

text \<open>
  The assertions of \<^verbatim>\<open>tests/circle_test.py\<close> and \<^verbatim>\<open>tests/rectangle_test.py\<close>,
  evaluated on the model.
\<close>

lemma test_filter_nan:
  "filter_nan (PyTuple [PyFloat (Finite 255), PyFloat NaN, PyFloat (Finite 0)]) = Inr PyNone"
  by (simp add: filter_nan_def)

lemma test_is_valid_color:
  "is_valid_color (PyTuple [PyFloat (Finite 255), PyFloat (Finite 0), PyFloat (Finite 0)])"
  "\<not> is_valid_color (PyTuple [PyFloat (Finite 256), PyFloat (Finite 0), PyFloat (Finite 0)])"
  "\<not> is_valid_color (PyTuple [PyFloat (Finite 256), PyStr ''aa'', PyFloat (Finite 0)])"
  by simp_all

lemma test_are_colors_similar:
  "truthy (are_colors_similar red
     (PyTuple [PyFloat (Finite 250), PyFloat (Finite 5), PyFloat (Finite 5)]) 10)"
  "truthy (are_colors_similar red
     (PyTuple [PyFloat (Finite 255), PyFloat (Finite 0), PyFloat (Finite 10)]) 10)"
  "\<not> truthy (are_colors_similar red
     (PyTuple [PyFloat (Finite 255), PyFloat (Finite 0), PyFloat (Finite 10)]) 0)"
  "\<not> truthy (are_colors_similar red
     (PyTuple [PyFloat (Finite 255), PyFloat (Finite 0), PyFloat (Finite 20)]) 10)"
  by (simp_all add: are_colors_similar_def color_diffs_def red_def)

lemma test_are_circles_same:
  "are_circles_same circle1 circle1 50 17 = Some 0"
  "are_circles_same circle1 (circle2\<lparr>c_x := 100, c_y := 200, c_radius := 100\<rparr>) 50 50 \<noteq> None"
  "are_circles_same circle1 (circle2\<lparr>c_x := 100, c_y := 200, c_radius := 100\<rparr>) 50 49 = None"
  "are_circles_same circle1 (circle2\<lparr>c_x := 150, c_y := 250\<rparr>) 70 17 = None"
  "are_circles_same circle1 (circle2\<lparr>c_x := 150, c_y := 250\<rparr>) 71 17 \<noteq> None"
  using sqrt_int_le_iff [of 70 5000] sqrt_int_le_iff [of 71 5000]
  by (simp_all add: are_circles_same_def circle1_def circle2_def)

lemma test_same_circle:
  "fst (same_circle circle1 circle2 1080)"
  "\<not> fst (same_circle circle3 circle2 1080)"
  "\<not> fst (same_circle circle3 (circle3\<lparr>c_frame := 53\<rparr>) 1080)"
  by (simp_all add: same_circle_def are_circles_same_50_17 circle1_def circle2_def circle3_def)

lemma test_same_rectangle_matching:
  "fst (same_rectangle rect1 rect2 1080)"
  "r_x (snd (same_rectangle rect1 rect2 1080)) = 15"
  "r_y (snd (same_rectangle rect1 rect2 1080)) = 25"
  "r_width (snd (same_rectangle rect1 rect2 1080)) = 100"
  "r_height (snd (same_rectangle rect1 rect2 1080)) = 100"
  "r_frame (snd (same_rectangle rect1 rect2 1080)) = 2"
  by (simp_all add: same_rectangle_def are_rectangles_same_40_5 rect1_def rect2_def)

lemma test_same_rectangle_not_matching:
  "same_rectangle (rect1\<lparr>r_height := 50\<rparr>)
     (rect2\<lparr>r_height := 50, r_color := green\<rparr>) 1080 = (False, rect1\<lparr>r_height := 50\<rparr>)"
  by (simp add: same_rectangle_def are_rectangles_same_40_5 rect1_def rect2_def
      are_colors_similar_def color_diffs_def red_def green_def)

lemma same_rectangle_rejects_undetermined_color:
  "rectangle_init 15 25 100 100
     (PyTuple [PyFloat (Finite 255), PyFloat NaN, PyFloat (Finite 0)]) 2 1080 = Inr rect2_nan"
  "same_rectangle rect1 rect2_nan 1080 = (False, rect1)"
  by (simp_all add: rectangle_init_def filter_nan_def rect2_nan_def rect1_def
      same_rectangle_def are_rectangles_same_40_5 are_colors_similar_def)

section \<open>Properties of the colour normalisation\<close>

lemma filter_nan_loop_eq:
  "filter_nan_loop xs acc =
     (if list_all (\<lambda>x. isinstance_float x \<and> \<not> isnan x) xs then PyTuple (acc @ xs) else PyNone)"
  by (induction xs arbitrary: acc) simp_all

lemma channel_ok_float_not_nan: "channel_ok x \<Longrightarrow> isinstance_float x \<and> \<not> isnan x"
  by (auto simp: channel_ok_iff)

lemma list_all_channel_ok_float_not_nan:
  "list_all channel_ok cs \<Longrightarrow> list_all (\<lambda>x. isinstance_float x \<and> \<not> isnan x) cs"
  by (induction cs) (simp_all add: channel_ok_float_not_nan)

text \<open>
  Claim C6, as amended.  For a colour that can be iterated over (a tuple, a list, a
  string), \<open>filter_nan\<close> and the two constructors return without raising:
  \<open>filter_nan\<close> gives \<^verbatim>\<open>None\<close> when a channel is not a float or is NaN and the
  tuple of the channels, whatever their number, otherwise.  \<open>is_valid_color\<close>
  reports \<^verbatim>\<open>None\<close>, a colour of the wrong length and a colour with a non-float or
  NaN channel as invalid, and \<open>are_colors_similar\<close> answers \<^verbatim>\<open>None\<close> as soon as
  one of its colours is invalid.
\<close>

theorem color_normalization_on_iterables:
  "(py_iter color = Inr cs \<longrightarrow>
      filter_nan color =
        Inr (if list_all (\<lambda>x. isinstance_float x \<and> \<not> isnan x) cs then PyTuple cs else PyNone)
      \<and> (\<exists>c. circle_init x y radius color frame video_height = Inr c)
      \<and> (\<exists>r. rectangle_init x y width height color frame video_height = Inr r))
   \<and> \<not> is_valid_color PyNone
   \<and> (length channels \<noteq> 3 \<or> \<not> list_all (\<lambda>x. isinstance_float x \<and> \<not> isnan x) channels
        \<longrightarrow> \<not> is_valid_color (PyTuple channels))
   \<and> (\<not> is_valid_color c1 \<longrightarrow>
        are_colors_similar c1 c2 tolerance = PyNone \<and> are_colors_similar c2 c1 tolerance = PyNone)"
proof (intro conjI impI)
  assume it: "py_iter color = Inr cs"
  then show "filter_nan color =
        Inr (if list_all (\<lambda>x. isinstance_float x \<and> \<not> isnan x) cs then PyTuple cs else PyNone)"
    by (simp add: filter_nan_def filter_nan_loop_eq)
  from it show "\<exists>c. circle_init x y radius color frame video_height = Inr c"
    by (simp add: circle_init_def filter_nan_def)
  from it show "\<exists>r. rectangle_init x y width height color frame video_height = Inr r"
    by (simp add: rectangle_init_def filter_nan_def)
next
  show "\<not> is_valid_color PyNone" by simp
next
  assume "length channels \<noteq> 3 \<or> \<not> list_all (\<lambda>x. isinstance_float x \<and> \<not> isnan x) channels"
  then show "\<not> is_valid_color (PyTuple channels)"
    using list_all_channel_ok_float_not_nan [of channels] by auto
next
  assume "\<not> is_valid_color c1"
  then show "are_colors_similar c1 c2 tolerance = PyNone"
    and "are_colors_similar c2 c1 tolerance = PyNone"
    by (simp_all add: are_colors_similar_def)
qed

theorem color_normalization_on_iterables_witness:
  "py_iter (PyTuple [PyFloat (Finite 255), PyFloat NaN, PyFloat (Finite 0)])
     = Inr [PyFloat (Finite 255), PyFloat NaN, PyFloat (Finite 0)]
   \<and> filter_nan (PyTuple [PyFloat (Finite 255), PyFloat NaN, PyFloat (Finite 0)]) = Inr PyNone
   \<and> length [PyFloat (Finite 255), PyFloat (Finite 0)] \<noteq> 3
   \<and> \<not> is_valid_color (PyTuple [PyFloat (Finite 255), PyFloat (Finite 0)])
   \<and> \<not> is_valid_color PyNone
   \<and> are_colors_similar PyNone red 30 = PyNone
   \<and> are_colors_similar red PyNone 30 = PyNone"
  using color_normalization_on_iterables
    [where color = "PyTuple [PyFloat (Finite 255), PyFloat NaN, PyFloat (Finite 0)]"
       and cs = "[PyFloat (Finite 255), PyFloat NaN, PyFloat (Finite 0)]"
       and channels = "[PyFloat (Finite 255), PyFloat (Finite 0)]"
       and ?c1.0 = PyNone and ?c2.0 = red and tolerance = 30]
  by simp

text \<open>
  Claim C6, as the specification states it, fails.  A colour with two channels, both
  proper floats, is not normalised to \<^verbatim>\<open>None\<close>: \<open>filter_nan\<close> returns it
  unchanged.  And the absent colour \<^verbatim>\<open>None\<close>, the constructor's default, makes
  \<open>filter_nan\<close> and the constructor raise \<^verbatim>\<open>TypeError\<close>.
\<close>

theorem filter_nan_counterexample:
  "filter_nan (PyTuple [PyFloat (Finite 255), PyFloat (Finite 0)])
     = Inr (PyTuple [PyFloat (Finite 255), PyFloat (Finite 0)])
   \<and> filter_nan PyNone = Inl TypeError
   \<and> circle_init 0 0 0 PyNone 0 0 = Inl TypeError"
  by (simp add: filter_nan_def circle_init_def)

section \<open>Properties of the ingestion\<close>

lemma same_circle_reject_unchanged:
  "\<not> fst (same_circle c n vh) \<Longrightarrow> snd (same_circle c n vh) = c"
  by (auto simp: same_circle_def split: if_splits option.splits)

lemma same_rectangle_reject_unchanged:
  "\<not> fst (same_rectangle r n vh) \<Longrightarrow> snd (same_rectangle r n vh) = r"
  by (auto simp: same_rectangle_def split: if_splits option.splits)

lemma scan_circles_cases:
  "(\<exists>i<length cs. (\<forall>j<i. \<not> fst (same_circle (cs ! j) n vh))
       \<and> fst (same_circle (cs ! i) n vh)
       \<and> scan_circles cs n vh = (True, cs[i := snd (same_circle (cs ! i) n vh)]))
   \<or> ((\<forall>c\<in>set cs. \<not> fst (same_circle c n vh)) \<and> scan_circles cs n vh = (False, cs))"
proof (induction cs)
  case Nil
  show ?case by simp
next
  case (Cons c cs)
  show ?case
  proof (cases "fst (same_circle c n vh)")
    case True
    then have "scan_circles (c # cs) n vh = (True, (c # cs)[0 := snd (same_circle c n vh)])"
      by (simp add: case_prod_beta)
    with True show ?thesis
      by (intro disjI1 exI [of _ 0]) simp
  next
    case False
    then have unchanged: "snd (same_circle c n vh) = c"
      by (rule same_circle_reject_unchanged)
    from Cons.IH show ?thesis
    proof
      assume "\<exists>i<length cs. (\<forall>j<i. \<not> fst (same_circle (cs ! j) n vh))
         \<and> fst (same_circle (cs ! i) n vh)
         \<and> scan_circles cs n vh = (True, cs[i := snd (same_circle (cs ! i) n vh)])"
      then obtain i where i: "i < length cs"
        and before: "\<forall>j<i. \<not> fst (same_circle (cs ! j) n vh)"
        and here: "fst (same_circle (cs ! i) n vh)"
        and scan: "scan_circles cs n vh = (True, cs[i := snd (same_circle (cs ! i) n vh)])"
        by blast
      have "\<forall>j<Suc i. \<not> fst (same_circle ((c # cs) ! j) n vh)"
        using False before by (auto simp: less_Suc_eq_0_disj)
      moreover have "scan_circles (c # cs) n vh
          = (True, (c # cs)[Suc i := snd (same_circle ((c # cs) ! Suc i) n vh)])"
        using False unchanged scan by (simp add: case_prod_beta)
      ultimately show ?thesis
        using i here by (intro disjI1 exI [of _ "Suc i"]) simp
    next
      assume "(\<forall>c\<in>set cs. \<not> fst (same_circle c n vh)) \<and> scan_circles cs n vh = (False, cs)"
      then show ?thesis
        using False unchanged by (simp add: case_prod_beta)
    qed
  qed
qed

lemma scan_rectangles_cases:
  "(\<exists>i<length rs. (\<forall>j<i. \<not> fst (same_rectangle (rs ! j) n vh))
       \<and> fst (same_rectangle (rs ! i) n vh)
       \<and> scan_rectangles rs n vh = (True, rs[i := snd (same_rectangle (rs ! i) n vh)]))
   \<or> ((\<forall>r\<in>set rs. \<not> fst (same_rectangle r n vh)) \<and> scan_rectangles rs n vh = (False, rs))"
proof (induction rs)
  case Nil
  show ?case by simp
next
  case (Cons r rs)
  show ?case
  proof (cases "fst (same_rectangle r n vh)")
    case True
    then have "scan_rectangles (r # rs) n vh
        = (True, (r # rs)[0 := snd (same_rectangle r n vh)])"
      by (simp add: case_prod_beta)
    with True show ?thesis
      by (intro disjI1 exI [of _ 0]) simp
  next
    case False
    then have unchanged: "snd (same_rectangle r n vh) = r"
      by (rule same_rectangle_reject_unchanged)
    from Cons.IH show ?thesis
    proof
      assume "\<exists>i<length rs. (\<forall>j<i. \<not> fst (same_rectangle (rs ! j) n vh))
         \<and> fst (same_rectangle (rs ! i) n vh)
         \<and> scan_rectangles rs n vh = (True, rs[i := snd (same_rectangle (rs ! i) n vh)])"
      then obtain i where i: "i < length rs"
        and before: "\<forall>j<i. \<not> fst (same_rectangle (rs ! j) n vh)"
        and here: "fst (same_rectangle (rs ! i) n vh)"
        and scan: "scan_rectangles rs n vh
            = (True, rs[i := snd (same_rectangle (rs ! i) n vh)])"
        by blast
      have "\<forall>j<Suc i. \<not> fst (same_rectangle ((r # rs) ! j) n vh)"
        using False before by (auto simp: less_Suc_eq_0_disj)
      moreover have "scan_rectangles (r # rs) n vh
          = (True, (r # rs)[Suc i := snd (same_rectangle ((r # rs) ! Suc i) n vh)])"
        using False unchanged scan by (simp add: case_prod_beta)
      ultimately show ?thesis
        using i here by (intro disjI1 exI [of _ "Suc i"]) simp
    next
      assume "(\<forall>r\<in>set rs. \<not> fst (same_rectangle r n vh))
         \<and> scan_rectangles rs n vh = (False, rs)"
      then show ?thesis
        using False unchanged by (simp add: case_prod_beta)
    qed
  qed
qed

text \<open>
  The scan itself (lines 144 to 148 and 194 to 200) tries the entities in the order
  of the registry.  Either some entity accepts: then the first accepting one, at
  index \<open>i\<close>, is replaced by its merged state and every other entity and the
  length of the registry stay as they were.  Or no entity accepts: then the
  registry is left as it was and the new entity is appended at its end.
\<close>

lemma ingestion_first_match:
  "((\<exists>i<length circles.
        (\<forall>j<i. \<not> fst (same_circle (circles ! j) new_circle vh))
        \<and> fst (same_circle (circles ! i) new_circle vh)
        \<and> ingest_circle circles new_circle vh
            = circles[i := snd (same_circle (circles ! i) new_circle vh)])
    \<or> ((\<forall>c\<in>set circles. \<not> fst (same_circle c new_circle vh))
        \<and> ingest_circle circles new_circle vh = circles @ [new_circle]))
   \<and> ((\<exists>i<length rectangles.
        (\<forall>j<i. \<not> fst (same_rectangle (rectangles ! j) new_rectangle vh))
        \<and> fst (same_rectangle (rectangles ! i) new_rectangle vh)
        \<and> ingest_rectangle rectangles new_rectangle vh
            = rectangles[i := snd (same_rectangle (rectangles ! i) new_rectangle vh)])
    \<or> ((\<forall>r\<in>set rectangles. \<not> fst (same_rectangle r new_rectangle vh))
        \<and> ingest_rectangle rectangles new_rectangle vh = rectangles @ [new_rectangle]))"
proof
  from scan_circles_cases [of circles new_circle vh]
  show "(\<exists>i<length circles.
        (\<forall>j<i. \<not> fst (same_circle (circles ! j) new_circle vh))
        \<and> fst (same_circle (circles ! i) new_circle vh)
        \<and> ingest_circle circles new_circle vh
            = circles[i := snd (same_circle (circles ! i) new_circle vh)])
    \<or> ((\<forall>c\<in>set circles. \<not> fst (same_circle c new_circle vh))
        \<and> ingest_circle circles new_circle vh = circles @ [new_circle])"
    unfolding ingest_circle_def by auto
next
  from scan_rectangles_cases [of rectangles new_rectangle vh]
  show "(\<exists>i<length rectangles.
        (\<forall>j<i. \<not> fst (same_rectangle (rectangles ! j) new_rectangle vh))
        \<and> fst (same_rectangle (rectangles ! i) new_rectangle vh)
        \<and> ingest_rectangle rectangles new_rectangle vh
            = rectangles[i := snd (same_rectangle (rectangles ! i) new_rectangle vh)])
    \<or> ((\<forall>r\<in>set rectangles. \<not> fst (same_rectangle r new_rectangle vh))
        \<and> ingest_rectangle rectangles new_rectangle vh = rectangles @ [new_rectangle])"
    unfolding ingest_rectangle_def by auto
qed

lemma ingestion_first_match_example:
  "\<not> fst (same_circle circle3 circle2 1080)
   \<and> fst (same_circle circle1 circle2 1080)
   \<and> ingest_circle [circle3, circle1, circle1] circle2 1080
       = [circle3, snd (same_circle circle1 circle2 1080), circle1]
   \<and> ingest_circle [circle3] circle2 1080 = [circle3, circle2]
   \<and> \<not> fst (same_rectangle rect2 rect2 1080)
   \<and> fst (same_rectangle rect1 rect2 1080)
   \<and> ingest_rectangle [rect2, rect1, rect1] rect2 1080
       = [rect2, snd (same_rectangle rect1 rect2 1080), rect1]
   \<and> ingest_rectangle [rect2] rect2 1080 = [rect2, rect2]"
proof -
  have c3: "\<not> fst (same_circle circle3 circle2 1080)"
    by (simp add: same_circle_def circle3_def circle2_def)
  have c1: "fst (same_circle circle1 circle2 1080)"
    by (simp add: same_circle_def are_circles_same_50_17 circle1_def circle2_def)
  have r2: "\<not> fst (same_rectangle rect2 rect2 1080)"
    by (simp add: same_rectangle_def rect2_def)
  have r1: "fst (same_rectangle rect1 rect2 1080)"
    by (simp add: same_rectangle_def are_rectangles_same_40_5 rect1_def rect2_def)
  have first: "ingest_circle [circle3, circle1, circle1] circle2 1080
       = [circle3, snd (same_circle circle1 circle2 1080), circle1]"
    and "ingest_rectangle [rect2, rect1, rect1] rect2 1080
       = [rect2, snd (same_rectangle rect1 rect2 1080), rect1]"
    using ingestion_first_match
      [where circles = "[circle3, circle1, circle1]" and new_circle = circle2
         and rectangles = "[rect2, rect1, rect1]" and new_rectangle = rect2 and vh = 1080]
      c3 c1 r2 r1
    by (auto simp: less_Suc_eq numeral_3_eq_3)
  moreover have "ingest_circle [circle3] circle2 1080 = [circle3, circle2]"
    and "ingest_rectangle [rect2] rect2 1080 = [rect2, rect2]"
    using ingestion_first_match
      [where circles = "[circle3]" and new_circle = circle2
         and rectangles = "[rect2]" and new_rectangle = rect2 and vh = 1080]
      c3 r2
    by auto
  ultimately show ?thesis using c3 c1 r2 r1 by simp
qed

lemma process_rectangles_skips_distinct_objects:
  "\<not> sc_w_is_h cand \<Longrightarrow> process_rectangles self [cand] fc = Inr self"
  by (simp add: rectangle_init_def filter_nan_def)

text \<open>
  Claim C5 at a concrete input.  A square of 300 by 300 pixels reaches the second
  loop of \<^verbatim>\<open>process_rectangles\<close> with \<^verbatim>\<open>w\<close> and \<^verbatim>\<open>h\<close> as two distinct integer
  objects of equal value, so \<^verbatim>\<open>w is not h\<close> holds and the loop continues: the
  observation has been built, but no entity is asked to merge it and no new entity
  is appended, although the registry is empty.  The first loop of the method tests
  the same squares with \<^verbatim>\<open>w == h\<close>.  A square of 100 by 100 pixels, whose
  \<^verbatim>\<open>w\<close> and \<^verbatim>\<open>h\<close> are one object, is appended as \<open>rect1\<close>.
\<close>

theorem process_rectangles_drops_square_observation:
  "process_rectangles (tracker_init\<lparr>t_video_height := 1080\<rparr>)
     [\<lparr>sc_x = 10, sc_y = 20, sc_w = 300, sc_h = 300,
       sc_color = [PyFloat (Finite 255), PyFloat (Finite 0), PyFloat (Finite 0)],
       sc_w_is_h = False\<rparr>] 1
     = Inr (tracker_init\<lparr>t_video_height := 1080\<rparr>)
   \<and> t_rectangles (tracker_init\<lparr>t_video_height := 1080\<rparr>) = []
   \<and> process_rectangles (tracker_init\<lparr>t_video_height := 1080\<rparr>)
     [\<lparr>sc_x = 10, sc_y = 20, sc_w = 100, sc_h = 100,
       sc_color = [PyFloat (Finite 255), PyFloat (Finite 0), PyFloat (Finite 0)],
       sc_w_is_h = True\<rparr>] 1
     = Inr (tracker_init\<lparr>t_video_height := 1080, t_rectangles := [rect1]\<rparr>)"
  by (simp add: tracker_init_def rectangle_init_def filter_nan_def ingest_rectangle_def
      rect1_def red_def)

section \<open>Properties of the persistence\<close>

lemma str_of_int_1 [simp]: "str_of_int 1 = ''1''"
  by (simp add: str_of_int_def str_of_nat.simps)

text \<open>
  Claim C8 at a concrete input.  The dictionary that \<open>save_circle\<close> writes has the
  keys \<^verbatim>\<open>filename\<close>, \<^verbatim>\<open>radius\<close>, \<^verbatim>\<open>color\<close> and \<^verbatim>\<open>data\<close>.  The dictionary that
  \<open>save_rectangle\<close> writes for the rectangle \<open>rect1\<close> under the index 1 has the
  keys \<^verbatim>\<open>width\<close>, \<^verbatim>\<open>height\<close>, \<^verbatim>\<open>color\<close> and \<^verbatim>\<open>data\<close>: the generated file name
  names the file and is not in the record.
\<close>

theorem save_rectangle_record_lacks_filename:
  "save_rectangle rect1 1
     = \<lparr>filename = ''rectangle_data_1.json'',
        content = [(''width'', JInt 100), (''height'', JInt 100), (''color'', JColor red),
                   (''data'', JRectangleData (r_data rect1))]\<rparr>
   \<and> ''filename'' \<notin> fst ` set (content (save_rectangle rect1 1))
   \<and> save_circle circle1 1
     = \<lparr>filename = ''circle_data_1.json'',
        content = [(''filename'', JString ''circle_data_1.json''), (''radius'', JInt 50),
                   (''color'', JColor red), (''data'', JCircleData (c_data circle1))]\<rparr>"
  by (simp add: save_rectangle_def save_circle_def Let_def rect1_def circle1_def)

lemma save_circles_names:
  "map filename (save_circles cs x)
     = map (\<lambda>i. ''circle_data_'' @ str_of_int (x + 1 + int i) @ ''.json'') [0..<length cs]"
proof (induction cs arbitrary: x)
  case Nil
  show ?case by simp
next
  case (Cons c cs)
  have "[0..<length (c # cs)] = 0 # map Suc [0..<length cs]"
    by (simp add: upt_conv_Cons map_Suc_upt del: upt_Suc)
  then show ?case
    by (simp add: Cons.IH save_circle_def Let_def o_def ac_simps del: upt_Suc)
qed

lemma save_rectangles_names:
  "map filename (save_rectangles rs x)
     = map (\<lambda>i. ''rectangle_data_'' @ str_of_int (x + 1 + int i) @ ''.json'') [0..<length rs]"
proof (induction rs arbitrary: x)
  case Nil
  show ?case by simp
next
  case (Cons r rs)
  have "[0..<length (r # rs)] = 0 # map Suc [0..<length rs]"
    by (simp add: upt_conv_Cons map_Suc_upt del: upt_Suc)
  then show ?case
    by (simp add: Cons.IH save_rectangle_def Let_def o_def ac_simps del: upt_Suc)
qed

section \<open>Properties of the tracking loop\<close>

lemma process_circles_returns: "\<exists>self'. process_circles self cands fc = Inr self'"
  by (induction cands arbitrary: self) (simp_all add: circle_init_def filter_nan_def)

lemma process_rectangles_returns: "\<exists>self'. process_rectangles self cands fc = Inr self'"
  by (induction cands arbitrary: self) (simp_all add: rectangle_init_def filter_nan_def)

lemma track_loop_counter:
  "fc \<le> 1000 \<Longrightarrow> \<exists>n self'. track_loop ticks fc self = Inr (n, self') \<and> fc \<le> n \<and> n \<le> 1000"
proof (induction ticks fc self rule: track_loop.induct)
  case (1 ticks fc self)
  show ?case
  proof (cases "is_opened (ticks fc) \<and> fc < 1000")
    case False
    with "1.prems" show ?thesis by (auto simp: track_loop.simps [of ticks fc self])
  next
    case True
    show ?thesis
    proof (cases "read (ticks fc)")
      case ReadValueError
      with True show ?thesis by (simp add: track_loop.simps [of ticks fc self])
    next
      case NoFrame
      with True show ?thesis by (simp add: track_loop.simps [of ticks fc self])
    next
      case (Frame frame)
      obtain self1 where s1:
        "process_circles self (circle_candidates frame) (int (fc + 1)) = Inr self1"
        using process_circles_returns by blast
      obtain self2 where s2:
        "process_rectangles self1 (square_candidates frame) (int (fc + 1)) = Inr self2"
        using process_rectangles_returns by blast
      show ?thesis
      proof (cases "quit_key (ticks fc)")
        case True
        with \<open>is_opened (ticks fc) \<and> fc < 1000\<close> Frame s1 s2 show ?thesis
          by (simp add: track_loop.simps [of ticks fc self])
      next
        case False
        from True have "fc + 1 \<le> 1000" by simp
        with "1.IH" [OF True Frame s1 s2 False]
        obtain n self' where "track_loop ticks (fc + 1) self2 = Inr (n, self')"
          "fc + 1 \<le> n" "n \<le> 1000" by blast
        with True Frame s1 s2 False show ?thesis
          by (simp add: track_loop.simps [of ticks fc self])
      qed
    qed
  qed
qed

lemma track_loop_reads_below_1000:
  "(\<forall>i. fc \<le> i \<and> i < 1000 \<longrightarrow> ticks' i = ticks i)
   \<Longrightarrow> track_loop ticks' fc self = track_loop ticks fc self"
proof (induction ticks fc self rule: track_loop.induct)
  case (1 ticks fc self)
  show ?case
  proof (cases "fc < 1000")
    case False
    then show ?thesis
      by (simp add: track_loop.simps [of ticks fc self] track_loop.simps [of ticks' fc self])
  next
    case True
    with "1.prems" have eq: "ticks' fc = ticks fc" by simp
    show ?thesis
    proof (cases "is_opened (ticks fc)")
      case False
      with eq show ?thesis
        by (simp add: track_loop.simps [of ticks fc self] track_loop.simps [of ticks' fc self])
    next
      case opened: True
      show ?thesis
      proof (cases "read (ticks fc)")
        case ReadValueError
        with eq show ?thesis
          by (simp add: track_loop.simps [of ticks fc self] track_loop.simps [of ticks' fc self])
      next
        case NoFrame
        with eq show ?thesis
          by (simp add: track_loop.simps [of ticks fc self] track_loop.simps [of ticks' fc self])
      next
        case (Frame frame)
        obtain self1 where s1:
          "process_circles self (circle_candidates frame) (int (fc + 1)) = Inr self1"
          using process_circles_returns by blast
        obtain self2 where s2:
          "process_rectangles self1 (square_candidates frame) (int (fc + 1)) = Inr self2"
          using process_rectangles_returns by blast
        show ?thesis
        proof (cases "quit_key (ticks fc)")
          case True
          with eq Frame s1 s2 show ?thesis
            by (simp add: track_loop.simps [of ticks fc self]
                track_loop.simps [of ticks' fc self])
        next
          case False
          from opened \<open>fc < 1000\<close> have c: "is_opened (ticks fc) \<and> fc < 1000" by simp
          from "1.prems" have "\<forall>i. fc + 1 \<le> i \<and> i < 1000 \<longrightarrow> ticks' i = ticks i" by simp
          with "1.IH" [OF c Frame s1 s2 False]
          have "track_loop ticks' (fc + 1) self2 = track_loop ticks (fc + 1) self2" by blast
          with eq c Frame s1 s2 False show ?thesis
            by (simp add: track_loop.simps [of ticks fc self]
                track_loop.simps [of ticks' fc self])
        qed
      qed
    qed
  qed
qed

lemma track_loop_full_run:
  "(\<forall>i. fc \<le> i \<and> i < 1000 \<longrightarrow>
        is_opened (ticks i) \<and> (\<exists>d. read (ticks i) = Frame d) \<and> \<not> quit_key (ticks i))
   \<Longrightarrow> fc \<le> 1000 \<Longrightarrow> \<exists>self'. track_loop ticks fc self = Inr (1000, self')"
proof (induction ticks fc self rule: track_loop.induct)
  case (1 ticks fc self)
  show ?case
  proof (cases "fc < 1000")
    case False
    with "1.prems" have "fc = 1000" by simp
    then show ?thesis by (simp add: track_loop.simps [of ticks 1000 self])
  next
    case True
    with "1.prems" have opened: "is_opened (ticks fc)" and key: "\<not> quit_key (ticks fc)"
      by simp_all
    from True "1.prems" obtain frame where Frame: "read (ticks fc) = Frame frame" by auto
    obtain self1 where s1:
      "process_circles self (circle_candidates frame) (int (fc + 1)) = Inr self1"
      using process_circles_returns by blast
    obtain self2 where s2:
      "process_rectangles self1 (square_candidates frame) (int (fc + 1)) = Inr self2"
      using process_rectangles_returns by blast
    from opened True have c: "is_opened (ticks fc) \<and> fc < 1000" by simp
    from "1.prems" have "\<forall>i. fc + 1 \<le> i \<and> i < 1000 \<longrightarrow>
        is_opened (ticks i) \<and> (\<exists>d. read (ticks i) = Frame d) \<and> \<not> quit_key (ticks i)"
      by simp
    moreover from True have "fc + 1 \<le> 1000" by simp
    ultimately obtain self' where "track_loop ticks (fc + 1) self2 = Inr (1000, self')"
      using "1.IH" [OF c Frame s1 s2 key] by blast
    with c Frame s1 s2 key show ?thesis
      by (simp add: track_loop.simps [of ticks fc self])
  qed
qed

text \<open>
  Claim C10.  The loop of \<open>track\<close> always returns, with a frame counter of at most
  1000.  It never consults the source beyond its first 1000 answers: two sources
  that agree on these give the same result.  A source that stays open, delivers a
  frame at every read and never sees the quit key is left at a frame counter of
  exactly 1000.  When the video can be opened, \<open>track\<close> then writes the files of the
  entities the loop accumulated.
\<close>

theorem track_loop_at_most_1000_frames:
  "(\<exists>n self'. track_loop ticks 0 self = Inr (n, self') \<and> n \<le> 1000)
   \<and> ((\<forall>i<1000. ticks' i = ticks i) \<longrightarrow> track_loop ticks' 0 self = track_loop ticks 0 self)
   \<and> ((\<forall>i<1000. is_opened (ticks i) \<and> (\<exists>d. read (ticks i) = Frame d) \<and> \<not> quit_key (ticks i))
        \<longrightarrow> (\<exists>self'. track_loop ticks 0 self = Inr (1000, self')))
   \<and> (v_opened video \<longrightarrow>
        (\<exists>n self'.
           track_loop (v_ticks video) 0
             (self\<lparr>t_video_width := v_width video, t_video_height := v_height video\<rparr>)
             = Inr (n, self')
           \<and> n \<le> 1000
           \<and> track self video
               = Inr (save_circles (t_circles self') 0 @ save_rectangles (t_rectangles self') 0)))"
proof (intro conjI impI)
  show "\<exists>n self'. track_loop ticks 0 self = Inr (n, self') \<and> n \<le> 1000"
    using track_loop_counter [of 0 ticks self] by auto
next
  assume "\<forall>i<1000. ticks' i = ticks i"
  then show "track_loop ticks' 0 self = track_loop ticks 0 self"
    by (intro track_loop_reads_below_1000) simp
next
  assume "\<forall>i<1000. is_opened (ticks i) \<and> (\<exists>d. read (ticks i) = Frame d) \<and> \<not> quit_key (ticks i)"
  then show "\<exists>self'. track_loop ticks 0 self = Inr (1000, self')"
    by (intro track_loop_full_run) simp_all
next
  assume opened: "v_opened video"
  define self0 where
    "self0 = self\<lparr>t_video_width := v_width video, t_video_height := v_height video\<rparr>"
  obtain n self' where run: "track_loop (v_ticks video) 0 self0 = Inr (n, self')" and "n \<le> 1000"
    using track_loop_counter [of 0 "v_ticks video" self0] by auto
  with opened have "track self video
      = Inr (save_circles (t_circles self') 0 @ save_rectangles (t_rectangles self') 0)"
    by (simp add: track_def load_video_def self0_def)
  with run \<open>n \<le> 1000\<close> show "\<exists>n self'.
           track_loop (v_ticks video) 0
             (self\<lparr>t_video_width := v_width video, t_video_height := v_height video\<rparr>)
             = Inr (n, self')
           \<and> n \<le> 1000
           \<and> track self video
               = Inr (save_circles (t_circles self') 0 @ save_rectangles (t_rectangles self') 0)"
    unfolding self0_def by blast
qed

theorem track_loop_at_most_1000_frames_witness:
  "(\<exists>self'. track_loop (v_ticks endless_video) 0 tracker_init = Inr (1000, self'))
   \<and> track_loop ((v_ticks endless_video)
        (1000 := \<lparr>is_opened = True, read = NoFrame, quit_key = True\<rparr>)) 0 tracker_init
       = track_loop (v_ticks endless_video) 0 tracker_init
   \<and> v_opened endless_video
   \<and> (\<exists>files. track tracker_init endless_video = Inr files)"
  using track_loop_at_most_1000_frames
    [where ticks = "v_ticks endless_video" and self = tracker_init
       and ticks' = "(v_ticks endless_video)
          (1000 := \<lparr>is_opened = True, read = NoFrame, quit_key = True\<rparr>)"
       and video = endless_video]
  by (auto simp: endless_video_def)

text \<open>
  A run of \<open>track\<close> on the video of two frames: the circle of the second frame
  is merged into the one of the first, the square is new, and one file is written
  for each entity.
\<close>

lemma two_frame_run:
  "track tracker_init two_frame_video =
     Inr [save_circle (snd (same_circle circle1 circle2 1080)) 1,
          save_rectangle
            (rect1\<lparr>r_frame := 2,
               r_data := [\<lparr>q_x = 10, q_y = 1060, q_width = 100, q_height = 100, q_frame = 2,
                           q_distance = None, q_color = red\<rparr>]\<rparr>) 1]"
  by (simp add: track_def load_video_def tracker_init_def two_frame_video_def
      track_loop.simps [of _ 0] track_loop.simps [of _ "Suc 0"] track_loop.simps [of _ 2]
      track_loop.simps [of _ "Suc (Suc 0)"]
      circle_init_def rectangle_init_def filter_nan_def ingest_circle_def ingest_rectangle_def
      same_circle_def are_circles_same_50_17 circle1_def circle2_def rect1_def red_def
      are_colors_similar_def color_diffs_def)

end
